theory Spec2Isabelle
  imports Main "HOL-Library.Word"
begin

unbundle bit_operations_syntax

section \<open>Python values\<close>

text \<open>
  The module \<^verbatim>\<open>magellan/types.py\<close> is dynamically typed Python 2. Its functions receive
  arbitrary objects, so the model has one type of values. A float is its IEEE-754 binary64
  bit pattern; an int is unbounded (\<^verbatim>\<open>int\<close> and \<^verbatim>\<open>long\<close> together); \<^verbatim>\<open>str\<close> and
  \<^verbatim>\<open>unicode\<close> are one constructor (text outside ASCII, where the two differ, is not
  represented); a dict has string keys (the objects that
  \<^verbatim>\<open>json.loads\<close> builds) and is an association list in its iteration order, where the
  first binding of a key is the one that counts. The three shape classes carry
  the two fields their constructors store.
\<close>

type_synonym float64 = "64 word"

datatype pyval =
    PNone
  | PBool bool
  | PInt int
  | PFloat float64
  | PStr string
  | PTuple "pyval list"
  | PList "pyval list"
  | PDict "(string \<times> pyval) list"
  | PPoint (Point_x: pyval) (Point_y: pyval)
  | PPolygon (shape_indices: pyval) (shape_points: pyval)
  | PPolyLine (shape_indices: pyval) (shape_points: pyval)

datatype pytype =
    T_NoneType | T_bool | T_int | T_float | T_str | T_tuple | T_list | T_dict
  | T_Point | T_Polygon | T_PolyLine

datatype pyerror =
    TypeError_cannot_serialize pyval pytype
  | AssertionError string
  | TypeError
  | KeyError string
  | IndexError
  | AttributeError
  | ImportError
  | ValueError
  | Py4JError

fun py_type :: "pyval \<Rightarrow> pytype" where
  "py_type PNone = T_NoneType"
| "py_type (PBool _) = T_bool"
| "py_type (PInt _) = T_int"
| "py_type (PFloat _) = T_float"
| "py_type (PStr _) = T_str"
| "py_type (PTuple _) = T_tuple"
| "py_type (PList _) = T_list"
| "py_type (PDict _) = T_dict"
| "py_type (PPoint _ _) = T_Point"
| "py_type (PPolygon _ _) = T_Polygon"
| "py_type (PPolyLine _ _) = T_PolyLine"

definition isinstance :: "pyval \<Rightarrow> pytype \<Rightarrow> bool" where
  "isinstance v t = (py_type v = t)"

subsection \<open>Floats: binary64 bit patterns\<close>

definition float_sign :: "float64 \<Rightarrow> bool" where
  "float_sign w = bit w 63"

definition float_exp :: "float64 \<Rightarrow> nat" where
  "float_exp w = unat (drop_bit 52 w AND 0x7FF)"

definition float_frac :: "float64 \<Rightarrow> nat" where
  "float_frac w = unat (w AND 0xFFFFFFFFFFFFF)"

definition float_is_nan :: "float64 \<Rightarrow> bool" where
  "float_is_nan w = (float_exp w = 2047 \<and> float_frac w \<noteq> 0)"

definition float_is_zero :: "float64 \<Rightarrow> bool" where
  "float_is_zero w = (float_exp w = 0 \<and> float_frac w = 0)"

text \<open>
  \<^verbatim>\<open>a == b\<close> on two floats: false when either is a NaN, true for the two zeros, and
  otherwise true exactly when the bit patterns agree.
\<close>

definition float_eq :: "float64 \<Rightarrow> float64 \<Rightarrow> bool" where
  "float_eq a b =
     (\<not> float_is_nan a \<and> \<not> float_is_nan b \<and> (a = b \<or> (float_is_zero a \<and> float_is_zero b)))"

text \<open>
  \<^verbatim>\<open>w == k\<close> for a float and an int: Python compares the exact values. A finite binary64
  is \<open>\<plusminus> m * 2 ^ (e - 1075)\<close>, with \<open>m\<close> the fraction (plus the hidden bit unless the
  exponent field is 0) and \<open>e\<close> the exponent field (1 when it is 0).
\<close>

definition float_eq_int :: "float64 \<Rightarrow> int \<Rightarrow> bool" where
  "float_eq_int w k =
     (float_exp w \<noteq> 2047 \<and>
      (let m = (if float_exp w = 0 then int (float_frac w) else 2 ^ 52 + int (float_frac w));
           e = (if float_exp w = 0 then 1 else float_exp w);
           s = (if float_sign w then - m else m)
       in if 1075 \<le> e then s * 2 ^ (e - 1075) = k else s = k * 2 ^ (1075 - e)))"

subsection \<open>Built-in operations\<close>

text \<open>Decimal rendering, as \<^verbatim>\<open>%d\<close> and \<^verbatim>\<open>str\<close> give for an int.\<close>

fun dec_nat :: "nat \<Rightarrow> string" where
  "dec_nat n =
     (if n < 10 then [''0123456789'' ! n]
      else dec_nat (n div 10) @ [''0123456789'' ! (n mod 10)])"

declare dec_nat.simps [simp del]

definition dec_int :: "int \<Rightarrow> string" where
  "dec_int i = (if i < 0 then ''-'' @ dec_nat (nat (- i)) else dec_nat (nat i))"

text \<open>\<^verbatim>\<open>v == k\<close> for an int literal \<open>k\<close>. \<^verbatim>\<open>True == 1\<close> and \<^verbatim>\<open>1.0 == 1\<close> hold in
  Python; a value of any other type is never equal to an int (\<^verbatim>\<open>Point.__eq__\<close> answers False
  for a non-Point, the other classes compare by identity).\<close>

fun py_eq_int :: "pyval \<Rightarrow> int \<Rightarrow> bool" where
  "py_eq_int (PInt i) k = (i = k)"
| "py_eq_int (PBool b) k = ((if b then 1 else 0) = k)"
| "py_eq_int (PFloat w) k = float_eq_int w k"
| "py_eq_int _ k = False"

text \<open>The items of a dict: the first binding of each key.\<close>

fun dict_items :: "(string \<times> 'v) list \<Rightarrow> (string \<times> 'v) list" where
  "dict_items [] = []"
| "dict_items (kv # d) = kv # dict_items (filter (\<lambda>kv'. fst kv' \<noteq> fst kv) d)"

text \<open>\<^verbatim>\<open>len(v)\<close>: defined for tuples, lists, strings and dicts; a TypeError otherwise.\<close>

fun py_len :: "pyval \<Rightarrow> pyerror + nat" where
  "py_len (PTuple xs) = Inr (length xs)"
| "py_len (PList xs) = Inr (length xs)"
| "py_len (PStr s) = Inr (length s)"
| "py_len (PDict d) = Inr (length (dict_items d))"
| "py_len _ = Inl TypeError"

text \<open>\<^verbatim>\<open>v[i]\<close> for a non-negative int literal \<open>i\<close>. A dict of string keys has no key \<open>i\<close>.\<close>

fun py_getitem :: "pyval \<Rightarrow> nat \<Rightarrow> pyerror + pyval" where
  "py_getitem (PTuple xs) i = (if i < length xs then Inr (xs ! i) else Inl IndexError)"
| "py_getitem (PList xs) i = (if i < length xs then Inr (xs ! i) else Inl IndexError)"
| "py_getitem (PStr s) i = (if i < length s then Inr (PStr [s ! i]) else Inl IndexError)"
| "py_getitem (PDict d) i = Inl (KeyError (dec_nat i))"
| "py_getitem _ i = Inl TypeError"

text \<open>\<^verbatim>\<open>v[k]\<close> for a string key \<open>k\<close>: a lookup in a dict, a TypeError on anything else.\<close>

fun py_getitem_str :: "pyval \<Rightarrow> string \<Rightarrow> pyerror + pyval" where
  "py_getitem_str (PDict d) k = (case map_of d k of None \<Rightarrow> Inl (KeyError k) | Some v \<Rightarrow> Inr v)"
| "py_getitem_str _ k = Inl TypeError"

text \<open>The elements that \<^verbatim>\<open>for p in v\<close> visits: a string yields its characters, a dict its keys.\<close>

fun py_iter :: "pyval \<Rightarrow> pyerror + pyval list" where
  "py_iter (PTuple xs) = Inr xs"
| "py_iter (PList xs) = Inr xs"
| "py_iter (PStr s) = Inr (map (\<lambda>c. PStr [c]) s)"
| "py_iter (PDict d) = Inr (map (\<lambda>kv. PStr (fst kv)) (dict_items d))"
| "py_iter _ = Inl TypeError"

text \<open>Sequencing: an exception raised by the first step ends the computation.\<close>

fun py_bind :: "pyerror + 'a \<Rightarrow> ('a \<Rightarrow> pyerror + 'b) \<Rightarrow> pyerror + 'b" where
  "py_bind (Inl e) f = Inl e"
| "py_bind (Inr v) f = f v"

text \<open>A list comprehension \<^verbatim>\<open>[f(p) for p in xs]\<close>: the first exception ends it.\<close>

fun comprehension :: "('a \<Rightarrow> pyerror + 'b) \<Rightarrow> 'a list \<Rightarrow> pyerror + 'b list" where
  "comprehension f [] = Inr []"
| "comprehension f (p # ps) =
     py_bind (f p) (\<lambda>q. py_bind (comprehension f ps) (\<lambda>qs. Inr (q # qs)))"

subsection \<open>String rendering\<close>

text \<open>\<^verbatim>\<open>sep.join(xs)\<close>.\<close>

fun py_join :: "string \<Rightarrow> string list \<Rightarrow> string" where
  "py_join sep [] = []"
| "py_join sep [s] = s"
| "py_join sep (s # t # ts) = s @ sep @ py_join sep (t # ts)"

lemma py_bind_cong [fundef_cong]:
  "m = m' \<Longrightarrow> (\<And>v. m' = Inr v \<Longrightarrow> f v = g v) \<Longrightarrow> py_bind m f = py_bind m' g"
  by (cases m') auto

lemma comprehension_cong [fundef_cong]:
  "xs = ys \<Longrightarrow> (\<And>x. x \<in> set ys \<Longrightarrow> f x = g x) \<Longrightarrow> comprehension f xs = comprehension g ys"
  by (induction ys arbitrary: xs) (auto intro: py_bind_cong)

lemma list_elem_size: "x \<in> set xs \<Longrightarrow> size (x::pyval) < Suc (size_list size xs)"
proof -
  assume "x \<in> set xs"
  then have "size x \<le> size_list size xs" by (rule size_list_estimation') simp
  then show ?thesis by simp
qed

lemma py_iter_size: "py_iter v = Inr xs \<Longrightarrow> x \<in> set xs \<Longrightarrow> size x < Suc (size v)"
  by (cases v) (auto dest: list_elem_size)

lemma dict_items_subset: "set (dict_items d) \<subseteq> set d"
  by (induction d rule: dict_items.induct) auto

lemma dict_value_size:
  assumes "(k, x) \<in> set (dict_items d)"
  shows "size (x::pyval) < Suc (size_list (size_prod (\<lambda>k. 0) size) d)"
proof -
  from assms dict_items_subset have "(k, x) \<in> set d" by fastforce
  then have "size_prod (\<lambda>k. 0) size (k, x) \<le> size_list (size_prod (\<lambda>k. 0) size) d"
    by (rule size_list_estimation') simp
  then show ?thesis by (simp add: size_prod_simp)
qed

text \<open>
  \<^verbatim>\<open>str(v)\<close>. An instance of one of the three classes is rendered by the
  \<^verbatim>\<open>__str__\<close> of its class (the first three equations are the bodies of
  \<^verbatim>\<open>Point.__str__\<close>, \<^verbatim>\<open>Polygon.__str__\<close> and \<^verbatim>\<open>PolyLine.__str__\<close>), which calls
  \<^verbatim>\<open>str\<close> on the fields again. None, bools, ints and strings are rendered as Python does.
  The text of a float and of a built-in container is the interpreter's own: the
  parameter \<open>bs\<close> stands for it. The interpreter renders a container from the
  \<^verbatim>\<open>repr\<close> of its elements, which for an instance of the three classes is
  \<^verbatim>\<open>__repr__\<close>, that is \<^verbatim>\<open>__str__\<close>: so rendering a container raises what rendering an
  element raises.
\<close>

function py_str :: "(pyval \<Rightarrow> string) \<Rightarrow> pyval \<Rightarrow> pyerror + string" where
  "py_str bs (PPoint x y) =
     py_bind (py_str bs x) (\<lambda>sx. py_bind (py_str bs y) (\<lambda>sy.
       Inr (''Point ('' @ sx @ '','' @ sy @ '')'')))"
| "py_str bs (PPolygon indices points) =
     py_bind (py_iter indices) (\<lambda>is. py_bind (comprehension (py_str bs) is) (\<lambda>ss.
       let inds = ''['' @ py_join '','' ss @ '']'' in
       py_bind (py_iter points) (\<lambda>vs. py_bind (comprehension (py_str bs) vs) (\<lambda>ts.
         let pts = ''['' @ py_join '','' ts @ '']'' in
         Inr (''Polygon ('' @ py_join '','' [inds, pts] @ '')'')))))"
| "py_str bs (PPolyLine indices points) =
     py_bind (py_iter indices) (\<lambda>is. py_bind (comprehension (py_str bs) is) (\<lambda>ss.
       let inds = ''['' @ py_join '','' ss @ '']'' in
       py_bind (py_iter points) (\<lambda>vs. py_bind (comprehension (py_str bs) vs) (\<lambda>ts.
         let pts = ''['' @ py_join '','' ts @ '']'' in
         Inr (''Polygon ('' @ py_join '','' [inds, pts] @ '')'')))))"
| "py_str bs PNone = Inr ''None''"
| "py_str bs (PBool b) = Inr (if b then ''True'' else ''False'')"
| "py_str bs (PInt i) = Inr (dec_int i)"
| "py_str bs (PStr s) = Inr s"
| "py_str bs (PFloat w) = Inr (bs (PFloat w))"
| "py_str bs (PTuple xs) =
     py_bind (comprehension (py_str bs) xs) (\<lambda>rs. Inr (bs (PTuple xs)))"
| "py_str bs (PList xs) =
     py_bind (comprehension (py_str bs) xs) (\<lambda>rs. Inr (bs (PList xs)))"
| "py_str bs (PDict d) =
     py_bind (comprehension (py_str bs) (map snd (dict_items d))) (\<lambda>rs. Inr (bs (PDict d)))"
  by pat_completeness auto
termination
  by (relation "measure (\<lambda>(bs, v). size v)")
    (auto dest: py_iter_size intro: list_elem_size dict_value_size)

section \<open>Point and its codec\<close>

text \<open>\<^verbatim>\<open>Point.__init__\<close> stores the two coordinates; \<^verbatim>\<open>_shape_type\<close> is the constant 1
  (5 for a Polygon, 3 for a PolyLine).\<close>

definition Point_init :: "pyval \<Rightarrow> pyval \<Rightarrow> pyval" where
  "Point_init x y = PPoint x y"

fun shape_type :: "pyval \<Rightarrow> int option" where
  "shape_type (PPoint _ _) = Some 1"
| "shape_type (PPolygon _ _) = Some 5"
| "shape_type (PPolyLine _ _) = Some 3"
| "shape_type _ = None"

text \<open>
  \<^verbatim>\<open>serialize\<close> raises a TypeError whose message is formatted with \<^verbatim>\<open>%r\<close> from the
  object and its type; the error value of the model carries the two. Formatting calls
  \<^verbatim>\<open>repr(obj)\<close>, which raises what \<^verbatim>\<open>str(obj)\<close> raises (\<^verbatim>\<open>__repr__\<close> is
  \<^verbatim>\<open>__str__\<close> in the three classes), and then that exception is the one that leaves.
\<close>

definition PointUDT_serialize :: "(pyval \<Rightarrow> string) \<Rightarrow> pyval \<Rightarrow> pyerror + pyval" where
  "PointUDT_serialize bs obj =
     (if isinstance obj T_Point then Inr obj
      else py_bind (py_str bs obj) (\<lambda>r.
        Inl (TypeError_cannot_serialize obj (py_type obj))))"

definition PointUDT_deserialize :: "pyval \<Rightarrow> pyerror + pyval" where
  "PointUDT_deserialize datum =
     (if isinstance datum T_Point then Inr datum
      else py_bind (py_len datum) (\<lambda>n.
        if n \<noteq> 3 then
          Inl (AssertionError
            (''PointUDT.deserialize given row with length '' @ dec_nat n @ '' but requires 3''))
        else py_bind (py_getitem datum 0) (\<lambda>tpe.
          if \<not> py_eq_int tpe 1 then Inl (AssertionError ''Point should have type = 1'')
          else py_bind (py_getitem datum 1) (\<lambda>x.
            py_bind (py_getitem datum 2) (\<lambda>y.
              Inr (Point_init x y))))))"

definition PointUDT_fromJson :: "pyval \<Rightarrow> pyerror + pyval" where
  "PointUDT_fromJson json =
     py_bind (py_getitem_str json ''x'') (\<lambda>x.
       py_bind (py_getitem_str json ''y'') (\<lambda>y.
         Inr (Point_init x y)))"

text \<open>
  \<^verbatim>\<open>a == b\<close> in general. Numbers compare by value across bool, int and float, strings
  by content, and a Point through \<^verbatim>\<open>Point.__eq__\<close> (the first equation is its
  body seen from \<^verbatim>\<open>==\<close>). Two tuples, two lists or two dicts compare element by element
  with an identity shortcut, and Polygon and PolyLine define no \<^verbatim>\<open>__eq__\<close>, so they
  compare by object identity: neither is determined by the values alone, and the parameter
  \<open>ceq\<close> stands for the answer of the interpreter there.
\<close>

fun py_eq :: "(pyval \<Rightarrow> pyval \<Rightarrow> bool) \<Rightarrow> pyval \<Rightarrow> pyval \<Rightarrow> bool" where
  "py_eq ceq (PPoint x y) other =
     (case other of PPoint x' y' \<Rightarrow> py_eq ceq x x' \<and> py_eq ceq y y' | _ \<Rightarrow> False)"
| "py_eq ceq (PInt i) b = py_eq_int b i"
| "py_eq ceq (PBool c) b = py_eq_int b (if c then 1 else 0)"
| "py_eq ceq (PFloat w) b =
     (case b of
        PFloat v \<Rightarrow> float_eq w v
      | PInt i \<Rightarrow> float_eq_int w i
      | PBool c \<Rightarrow> float_eq_int w (if c then 1 else 0)
      | _ \<Rightarrow> False)"
| "py_eq ceq (PStr s) b = (case b of PStr t \<Rightarrow> s = t | _ \<Rightarrow> False)"
| "py_eq ceq PNone b = (case b of PNone \<Rightarrow> True | _ \<Rightarrow> False)"
| "py_eq ceq (PTuple xs) b = (case b of PTuple ys \<Rightarrow> ceq (PTuple xs) b | _ \<Rightarrow> False)"
| "py_eq ceq (PList xs) b = (case b of PList ys \<Rightarrow> ceq (PList xs) b | _ \<Rightarrow> False)"
| "py_eq ceq (PDict d) b = (case b of PDict d' \<Rightarrow> ceq (PDict d) b | _ \<Rightarrow> False)"
| "py_eq ceq (PPolygon i p) b =
     (case b of PPolygon i' p' \<Rightarrow> ceq (PPolygon i p) b | _ \<Rightarrow> False)"
| "py_eq ceq (PPolyLine i p) b =
     (case b of PPolyLine i' p' \<Rightarrow> ceq (PPolyLine i p) b | _ \<Rightarrow> False)"

text \<open>\<^verbatim>\<open>Point.__eq__\<close>.\<close>

definition Point_eq :: "(pyval \<Rightarrow> pyval \<Rightarrow> bool) \<Rightarrow> pyval \<Rightarrow> pyval \<Rightarrow> bool" where
  "Point_eq ceq self other =
     (isinstance other T_Point \<and> py_eq ceq (Point_x self) (Point_x other)
        \<and> py_eq ceq (Point_y self) (Point_y other))"

section \<open>String rendering of the shapes\<close>

text \<open>The three \<^verbatim>\<open>__str__\<close> methods, on \<open>self\<close>.\<close>

definition Point_str :: "(pyval \<Rightarrow> string) \<Rightarrow> pyval \<Rightarrow> pyerror + string" where
  "Point_str bs self =
     py_bind (py_str bs (Point_x self)) (\<lambda>sx. py_bind (py_str bs (Point_y self)) (\<lambda>sy.
       Inr (''Point ('' @ sx @ '','' @ sy @ '')'')))"

definition Polygon_str :: "(pyval \<Rightarrow> string) \<Rightarrow> pyval \<Rightarrow> pyerror + string" where
  "Polygon_str bs self =
     py_bind (py_iter (shape_indices self)) (\<lambda>is. py_bind (comprehension (py_str bs) is) (\<lambda>ss.
       let inds = ''['' @ py_join '','' ss @ '']'' in
       py_bind (py_iter (shape_points self)) (\<lambda>vs. py_bind (comprehension (py_str bs) vs) (\<lambda>ts.
         let pts = ''['' @ py_join '','' ts @ '']'' in
         Inr (''Polygon ('' @ py_join '','' [inds, pts] @ '')'')))))"

definition PolyLine_str :: "(pyval \<Rightarrow> string) \<Rightarrow> pyval \<Rightarrow> pyerror + string" where
  "PolyLine_str bs self =
     py_bind (py_iter (shape_indices self)) (\<lambda>is. py_bind (comprehension (py_str bs) is) (\<lambda>ss.
       let inds = ''['' @ py_join '','' ss @ '']'' in
       py_bind (py_iter (shape_points self)) (\<lambda>vs. py_bind (comprehension (py_str bs) vs) (\<lambda>ts.
         let pts = ''['' @ py_join '','' ts @ '']'' in
         Inr (''Polygon ('' @ py_join '','' [inds, pts] @ '')'')))))"

section \<open>The registration hook and the JSON self-description\<close>

text \<open>
  The process state the module can change: what \<^verbatim>\<open>print\<close> has written, the class
  attribute \<^verbatim>\<open>Point.__initialized__\<close>, and how often the JVM method
  \<^verbatim>\<open>EvaluatePython.registerPicklers\<close> has been invoked.
\<close>

record world =
  printed :: "string list"
  initialized :: bool
  registered :: nat

text \<open>
  What \<^verbatim>\<open>registerPicklers\<close> finds in the host: whether there is an active SparkContext, and
  the names of the methods of the class
  \<^verbatim>\<open>org.apache.spark.sql.magellan.EvaluatePython\<close> (None when the class cannot be loaded).
\<close>

record host =
  active_spark_context :: bool
  evaluate_python_methods :: "string list option"

definition registerPicklers :: "host \<Rightarrow> pyval \<Rightarrow> world \<Rightarrow> (pyerror + pyval) \<times> world" where
  "registerPicklers h self w =
     (if initialized w = False then
        (if \<not> active_spark_context h then (Inl AttributeError, w)
         else case evaluate_python_methods h of
           None \<Rightarrow> (Inl Py4JError, w)
         | Some mthds \<Rightarrow>
            (let wmethod =
               fold (\<lambda>mthd wm. if mthd = ''registerPicklers'' then Some mthd else wm) mthds None
             in if wmethod = None then (Inl AttributeError, w)
                else (Inr PNone, w\<lparr>registered := registered w + 1, initialized := True\<rparr>)))
      else (Inr PNone, w))"

text \<open>The registration hook called once for each object of a list, in order.\<close>

fun registerPicklers_all :: "host \<Rightarrow> pyval list \<Rightarrow> world \<Rightarrow> (pyerror + pyval) \<times> world" where
  "registerPicklers_all h [] w = (Inr PNone, w)"
| "registerPicklers_all h (self # selfs) w =
     (case registerPicklers h self w of
        (Inl e, w') \<Rightarrow> (Inl e, w')
      | (Inr u, w') \<Rightarrow> registerPicklers_all h selfs w')"


definition PolygonUDT_scalaUDT :: string where "PolygonUDT_scalaUDT = ''magellan.PolygonUDT''"
definition PolyLineUDT_scalaUDT :: string where "PolyLineUDT_scalaUDT = ''magellan.PolyLineUDT''"

definition PointUDT_simpleString :: string where "PointUDT_simpleString = ''point''"
definition PolygonUDT_simpleString :: string where "PolygonUDT_simpleString = ''polygon''"
definition PolyLineUDT_simpleString :: string where "PolyLineUDT_simpleString = ''polyline''"

definition Point_jsonValue :: "host \<Rightarrow> pyval \<Rightarrow> world \<Rightarrow> (pyerror + pyval) \<times> world" where
  "Point_jsonValue h self w =
     (case registerPicklers h self w of
        (Inl e, w') \<Rightarrow> (Inl e, w')
      | (Inr u, w') \<Rightarrow>
          (Inr (PDict [(''type'', PStr ''udt''),
                       (''pyClass'', PStr ''magellan.types.PointUDT''),
                       (''class'', PStr ''magellan.PointUDT''),
                       (''sqlType'', PStr ''magellan.Point'')]), w'))"

definition Polygon_jsonValue :: "host \<Rightarrow> pyval \<Rightarrow> world \<Rightarrow> (pyerror + pyval) \<times> world" where
  "Polygon_jsonValue h self w =
     (case registerPicklers h self w of
        (Inl e, w') \<Rightarrow> (Inl e, w')
      | (Inr u, w') \<Rightarrow>
          (Inr (PDict [(''type'', PStr ''udt''),
                       (''pyClass'', PStr ''magellan.types.PolygonUDT''),
                       (''class'', PStr ''magellan.Polygon''),
                       (''sqlType'', PStr ''magellan.Polygon'')]), w'))"

definition PolyLine_jsonValue :: "host \<Rightarrow> pyval \<Rightarrow> world \<Rightarrow> (pyerror + pyval) \<times> world" where
  "PolyLine_jsonValue h self w =
     (case registerPicklers h self w of
        (Inl e, w') \<Rightarrow> (Inl e, w')
      | (Inr u, w') \<Rightarrow>
          (Inr (PDict [(''type'', PStr ''udt''),
                       (''pyClass'', PStr ''magellan.types.PolyLineUDT''),
                       (''class'', PStr ''magellan.PolyLine''),
                       (''sqlType'', PStr ''magellan.PolyLine'')]), w'))"

section \<open>Polygon, PolyLine and their codecs\<close>

definition Polygon_init :: "pyval \<Rightarrow> pyval \<Rightarrow> pyval" where
  "Polygon_init indices points = PPolygon indices points"

definition PolyLine_init :: "pyval \<Rightarrow> pyval \<Rightarrow> pyval" where
  "PolyLine_init indices points = PPolyLine indices points"

definition PolygonUDT_serialize :: "(pyval \<Rightarrow> string) \<Rightarrow> pyval \<Rightarrow> pyerror + pyval" where
  "PolygonUDT_serialize bs obj =
     (if isinstance obj T_Polygon then Inr obj
      else py_bind (py_str bs obj) (\<lambda>r.
        Inl (TypeError_cannot_serialize obj (py_type obj))))"

definition PolyLineUDT_serialize :: "(pyval \<Rightarrow> string) \<Rightarrow> pyval \<Rightarrow> pyerror + pyval" where
  "PolyLineUDT_serialize bs obj =
     (if isinstance obj T_PolyLine then Inr obj
      else py_bind (py_str bs obj) (\<lambda>r.
        Inl (TypeError_cannot_serialize obj (py_type obj))))"

definition PolygonUDT_deserialize :: "pyval \<Rightarrow> pyerror + pyval" where
  "PolygonUDT_deserialize datum =
     (if isinstance datum T_Polygon then Inr datum
      else py_bind (py_len datum) (\<lambda>n.
        if n \<noteq> 3 then
          Inl (AssertionError
            (''PolygonUDT.deserialize given row with length '' @ dec_nat n @ '' but requires 4''))
        else py_bind (py_getitem datum 0) (\<lambda>tpe.
          if \<not> py_eq_int tpe 5 then Inl (AssertionError ''Polygon should have type = 5'')
          else py_bind (py_getitem datum 1) (\<lambda>indices.
            py_bind (py_getitem datum 2) (\<lambda>d2.
              py_bind (py_iter d2) (\<lambda>ps.
                py_bind (comprehension PointUDT_deserialize ps) (\<lambda>points.
                  Inr (Polygon_init indices (PList points)))))))))"

text \<open>\<^verbatim>\<open>print datum\<close> writes \<^verbatim>\<open>str(datum)\<close> to the standard output, unless rendering
  the datum raises.\<close>

definition py_print :: "(pyval \<Rightarrow> string) \<Rightarrow> pyval \<Rightarrow> world \<Rightarrow> (pyerror + pyval) \<times> world" where
  "py_print bs v w =
     (case py_str bs v of
        Inl e \<Rightarrow> (Inl e, w)
      | Inr s \<Rightarrow> (Inr PNone, w\<lparr>printed := printed w @ [s]\<rparr>))"

text \<open>\<^verbatim>\<open>PolyLineUDT.deserialize\<close> prints the datum once its length has been checked, so
  it is a function of the process state as well.\<close>

definition PolyLineUDT_deserialize ::
  "(pyval \<Rightarrow> string) \<Rightarrow> pyval \<Rightarrow> world \<Rightarrow> (pyerror + pyval) \<times> world" where
  "PolyLineUDT_deserialize bs datum w =
     (if isinstance datum T_PolyLine then (Inr datum, w)
      else case py_len datum of
        Inl e \<Rightarrow> (Inl e, w)
      | Inr n \<Rightarrow>
          if n \<noteq> 3 then
            (Inl (AssertionError
               (''PolyLineUDT.deserialize given row with length '' @ dec_nat n
                  @ '' but requires 4'')), w)
          else (case py_print bs datum w of
            (Inl e, w') \<Rightarrow> (Inl e, w')
          | (Inr u, w') \<Rightarrow>
              (py_bind (py_getitem datum 0) (\<lambda>tpe.
                 if \<not> py_eq_int tpe 3 then Inl (AssertionError ''PolyLine should have type = 3'')
                 else py_bind (py_getitem datum 1) (\<lambda>indices.
                   py_bind (py_getitem datum 2) (\<lambda>d2.
                     py_bind (py_iter d2) (\<lambda>ps.
                       py_bind (comprehension PointUDT_deserialize ps) (\<lambda>points.
                         Inr (PolyLine_init indices (PList points))))))), w')))"

text \<open>The \<^verbatim>\<open>fromJson\<close> class methods of the shapes and of their codecs: each pair has the
  same body.\<close>

definition Point_fromJson :: "pyval \<Rightarrow> pyerror + pyval" where
  "Point_fromJson json =
     py_bind (py_getitem_str json ''x'') (\<lambda>x.
       py_bind (py_getitem_str json ''y'') (\<lambda>y.
         Inr (Point_init x y)))"

definition PolygonUDT_fromJson :: "pyval \<Rightarrow> pyerror + pyval" where
  "PolygonUDT_fromJson json =
     py_bind (py_getitem_str json ''indices'') (\<lambda>indices.
       py_bind (py_getitem_str json ''points'') (\<lambda>jp.
         py_bind (py_iter jp) (\<lambda>ps.
           py_bind (comprehension PointUDT_fromJson ps) (\<lambda>points.
             Inr (Polygon_init indices (PList points))))))"

definition Polygon_fromJson :: "pyval \<Rightarrow> pyerror + pyval" where
  "Polygon_fromJson json =
     py_bind (py_getitem_str json ''indices'') (\<lambda>indices.
       py_bind (py_getitem_str json ''points'') (\<lambda>jp.
         py_bind (py_iter jp) (\<lambda>ps.
           py_bind (comprehension PointUDT_fromJson ps) (\<lambda>points.
             Inr (Polygon_init indices (PList points))))))"

definition PolyLineUDT_fromJson :: "pyval \<Rightarrow> pyerror + pyval" where
  "PolyLineUDT_fromJson json =
     py_bind (py_getitem_str json ''indices'') (\<lambda>indices.
       py_bind (py_getitem_str json ''points'') (\<lambda>jp.
         py_bind (py_iter jp) (\<lambda>ps.
           py_bind (comprehension PointUDT_fromJson ps) (\<lambda>points.
             Inr (PolyLine_init indices (PList points))))))"

definition PolyLine_fromJson :: "pyval \<Rightarrow> pyerror + pyval" where
  "PolyLine_fromJson json =
     py_bind (py_getitem_str json ''indices'') (\<lambda>indices.
       py_bind (py_getitem_str json ''points'') (\<lambda>jp.
         py_bind (py_iter jp) (\<lambda>ps.
           py_bind (comprehension PointUDT_fromJson ps) (\<lambda>points.
             Inr (PolyLine_init indices (PList points))))))"

section \<open>The JSON envelope dispatch\<close>

text \<open>\<^verbatim>\<open>s.rfind(c)\<close>: the highest index of \<open>c\<close> in \<open>s\<close>, or -1.\<close>

fun rfind :: "string \<Rightarrow> char \<Rightarrow> int" where
  "rfind [] c = - 1"
| "rfind (a # s) c =
     (let r = rfind s c in if 0 \<le> r then r + 1 else if a = c then 0 else - 1)"

text \<open>The slices \<^verbatim>\<open>s[:k]\<close> and \<^verbatim>\<open>s[k:]\<close>; a negative bound counts from the end.\<close>

definition py_slice_to :: "string \<Rightarrow> int \<Rightarrow> string" where
  "py_slice_to s k = take (nat (if k < 0 then int (length s) + k else k)) s"

definition py_slice_from :: "string \<Rightarrow> int \<Rightarrow> string" where
  "py_slice_from s k = drop (nat (if k < 0 then int (length s) + k else k)) s"

text \<open>
  What \<^verbatim>\<open>getattr(__import__(module, ...), shapeClass)\<close> can be. The module
  \<^verbatim>\<open>magellan.types\<close> defines the six classes with a \<^verbatim>\<open>fromJson\<close> of their own and two
  functions, which have no such attribute. Every other name (another module, or a name that
  \<^verbatim>\<open>magellan.types\<close> only imports or inherits from pyspark, \<^verbatim>\<open>Shape\<close> included) is
  foreign code.
\<close>

datatype pyattr =
    C_PointUDT | C_Point | C_PolygonUDT | C_Polygon | C_PolyLineUDT | C_PolyLine
  | F_function
  | Foreign string string

definition py_import_getattr :: "string \<Rightarrow> string \<Rightarrow> pyattr" where
  "py_import_getattr modname shapeClass =
     (if modname = ''magellan.types'' then
        (if shapeClass = ''PointUDT'' then C_PointUDT
         else if shapeClass = ''Point'' then C_Point
         else if shapeClass = ''PolygonUDT'' then C_PolygonUDT
         else if shapeClass = ''Polygon'' then C_Polygon
         else if shapeClass = ''PolyLineUDT'' then C_PolyLineUDT
         else if shapeClass = ''PolyLine'' then C_PolyLine
         else if shapeClass = ''_inbound_shape_converter''
               \<or> shapeClass = ''_create_row_inbound_converter'' then F_function
         else Foreign modname shapeClass)
      else Foreign modname shapeClass)"

text \<open>\<^verbatim>\<open>UDT.fromJson(j)\<close>. The parameter \<open>foreign\<close> stands for what importing a foreign
  name and calling its \<^verbatim>\<open>fromJson\<close> does (an ImportError or AttributeError included).\<close>

fun call_fromJson ::
  "(string \<Rightarrow> string \<Rightarrow> pyval \<Rightarrow> pyerror + pyval) \<Rightarrow> pyattr \<Rightarrow> pyval \<Rightarrow> pyerror + pyval" where
  "call_fromJson foreign C_PointUDT j = PointUDT_fromJson j"
| "call_fromJson foreign C_Point j = Point_fromJson j"
| "call_fromJson foreign C_PolygonUDT j = PolygonUDT_fromJson j"
| "call_fromJson foreign C_Polygon j = Polygon_fromJson j"
| "call_fromJson foreign C_PolyLineUDT j = PolyLineUDT_fromJson j"
| "call_fromJson foreign C_PolyLine j = PolyLine_fromJson j"
| "call_fromJson foreign F_function j = Inl AttributeError"
| "call_fromJson foreign (Foreign m c) j = foreign m c j"

text \<open>
  \<^verbatim>\<open>_inbound_shape_converter\<close>. \<^verbatim>\<open>json.loads\<close> is the standard library's parser and is a
  parameter, as are the interpreter's \<^verbatim>\<open>str\<close> on built-in values and the foreign names.
\<close>

definition inbound_shape_converter ::
  "(string \<Rightarrow> pyerror + pyval) \<Rightarrow> (pyval \<Rightarrow> string)
     \<Rightarrow> (string \<Rightarrow> string \<Rightarrow> pyval \<Rightarrow> pyerror + pyval) \<Rightarrow> string \<Rightarrow> pyerror + pyval" where
  "inbound_shape_converter json_loads bs foreign json_string =
     py_bind (json_loads json_string) (\<lambda>j.
       py_bind (py_getitem_str j ''pyClass'') (\<lambda>c.
         py_bind (py_str bs c) (\<lambda>shapeType.
           let split = rfind shapeType CHR ''.'';
               modname = py_slice_to shapeType split;
               shapeClass = py_slice_from shapeType (split + 1);
               UDT = py_import_getattr modname shapeClass
           in call_fromJson foreign UDT j)))"

section \<open>Facts about the built-in operations\<close>

lemma comprehension_list_all2:
  "comprehension f xs = Inr ys \<longleftrightarrow> list_all2 (\<lambda>x y. f x = Inr y) xs ys"
proof (induction xs arbitrary: ys)
  case Nil
  then show ?case by auto
next
  case (Cons x xs)
  show ?case
  proof (cases "f x")
    case (Inl e)
    then show ?thesis by (auto simp: list_all2_Cons1)
  next
    case (Inr q)
    then show ?thesis
      using Cons.IH by (cases "comprehension f xs") (auto simp: list_all2_Cons1)
  qed
qed

lemma comprehension_succeeds:
  "(\<forall>x \<in> set xs. \<exists>y. f x = Inr y) \<Longrightarrow> \<exists>ys. comprehension f xs = Inr ys"
  by (induction xs) auto

lemma comprehension_fails:
  "comprehension f xs = Inl e \<Longrightarrow> \<exists>x \<in> set xs. f x = Inl e"
proof (induction xs)
  case Nil
  then show ?case by simp
next
  case (Cons x xs)
  then show ?case
    by (cases "f x"; cases "comprehension f xs") auto
qed

lemma py_iter_error: "py_iter v = Inl e \<Longrightarrow> e = TypeError"
  by (cases v) auto


lemma py_bind_error:
  "py_bind m f = Inl e \<Longrightarrow> m = Inl e \<or> (\<exists>v. m = Inr v \<and> f v = Inl e)"
  by (cases m) auto

text \<open>Rendering raises nothing but the TypeError of iterating what cannot be iterated.\<close>

lemma py_str_error: "py_str bs v = Inl e \<Longrightarrow> e = TypeError"
proof (induction bs v arbitrary: e rule: py_str.induct)
  case (1 bs x y)
  then show ?case by (auto dest!: py_bind_error)
next
  case (2 bs indices points)
  then show ?case
    by (fastforce simp: Let_def dest!: py_bind_error dest: py_iter_error comprehension_fails)
next
  case (3 bs indices points)
  then show ?case
    by (fastforce simp: Let_def dest!: py_bind_error dest: py_iter_error comprehension_fails)
next
  case (9 bs xs)
  then show ?case by (fastforce dest!: py_bind_error dest: comprehension_fails)
next
  case (10 bs xs)
  then show ?case by (fastforce dest!: py_bind_error dest: comprehension_fails)
next
  case (11 bs d)
  then show ?case by (fastforce dest!: py_bind_error dest: comprehension_fails)
qed auto

text \<open>A concrete stand-in for the interpreter's rendering of floats and containers, for
  the closed instances below.\<close>

definition bs_repr :: "pyval \<Rightarrow> string" where
  "bs_repr v = ''<'' @ (case v of PFloat w \<Rightarrow> ''float'' | PTuple xs \<Rightarrow> ''tuple''
                        | PList xs \<Rightarrow> ''list'' | PDict d \<Rightarrow> ''dict'' | _ \<Rightarrow> ''object'') @ ''>''"

section \<open>The values of the data model\<close>

text \<open>
  The data model has Points with two float coordinates, and Polygons and PolyLines with a
  sequence of int indices and a sequence of such Points. These are the Point of a pair of
  floats, its engine-datum triple and its JSON object.
\<close>

definition float_point :: "float64 \<times> float64 \<Rightarrow> pyval" where
  "float_point c = PPoint (PFloat (fst c)) (PFloat (snd c))"

definition point_triple :: "float64 \<times> float64 \<Rightarrow> pyval" where
  "point_triple c = PTuple [PInt 1, PFloat (fst c), PFloat (snd c)]"

definition point_object :: "float64 \<times> float64 \<Rightarrow> pyval" where
  "point_object c = PDict [(''x'', PFloat (fst c)), (''y'', PFloat (snd c))]"

lemma str_int_list: "comprehension (py_str bs) (map PInt ks) = Inr (map dec_int ks)"
  by (induction ks) simp_all

lemma str_float_points:
  "comprehension (py_str bs) (map float_point cs)
     = Inr (map (\<lambda>c. ''Point ('' @ bs (PFloat (fst c)) @ '','' @ bs (PFloat (snd c)) @ '')'') cs)"
  by (induction cs) (simp_all add: float_point_def)

lemma str_point_triples:
  "comprehension (py_str bs) (map point_triple cs) = Inr (map (\<lambda>c. bs (point_triple c)) cs)"
  by (induction cs) (simp_all add: point_triple_def dec_int_def dec_nat.simps)

lemma str_shape_triple:
  "py_str bs (PTuple [PInt t, PList (map PInt ks), PList (map point_triple cs)])
     = Inr (bs (PTuple [PInt t, PList (map PInt ks), PList (map point_triple cs)]))"
  by (simp add: str_int_list str_point_triples)

lemma str_shape:
  "\<exists>r. py_str bs (PPolygon (PList (map PInt ks)) (PList (map float_point cs))) = Inr r"
  "\<exists>r. py_str bs (PPolyLine (PList (map PInt ks)) (PList (map float_point cs))) = Inr r"
  "\<exists>r. py_str bs (float_point c) = Inr r"
  by (simp_all add: str_int_list str_float_points float_point_def)

lemma deserialize_point_triples:
  "comprehension PointUDT_deserialize (map point_triple cs) = Inr (map float_point cs)"
  by (induction cs)
    (simp_all add: point_triple_def float_point_def PointUDT_deserialize_def isinstance_def
      Point_init_def)

lemma fromJson_point_objects:
  "comprehension PointUDT_fromJson (map point_object cs) = Inr (map float_point cs)"
  by (induction cs)
    (simp_all add: point_object_def float_point_def PointUDT_fromJson_def Point_init_def)

lemma typed_fromJson:
  "PolygonUDT_fromJson (PDict [(''indices'', PList (map PInt ks)),
                               (''points'', PList (map point_object cs))])
     = Inr (PPolygon (PList (map PInt ks)) (PList (map float_point cs)))"
  "PolyLineUDT_fromJson (PDict [(''indices'', PList (map PInt ks)),
                                (''points'', PList (map point_object cs))])
     = Inr (PPolyLine (PList (map PInt ks)) (PList (map float_point cs)))"
  by (simp_all add: PolygonUDT_fromJson_def PolyLineUDT_fromJson_def fromJson_point_objects
      Polygon_init_def PolyLine_init_def)

section \<open>Serialize: passthrough or TypeError\<close>

lemma serialize_cases:
  assumes "ser = (\<lambda>obj. if isinstance obj t then Inr obj
                   else py_bind (py_str bs obj) (\<lambda>r.
                     Inl (TypeError_cannot_serialize obj (py_type obj))))"
  shows "(isinstance v t \<longrightarrow> ser v = Inr v)
       \<and> (\<not> isinstance v t \<longrightarrow>
            ser v = Inl (TypeError_cannot_serialize v (py_type v)) \<or> ser v = Inl TypeError)
       \<and> (\<not> isinstance v t \<longrightarrow> (\<forall>r. py_str bs v = Inr r \<longrightarrow>
            ser v = Inl (TypeError_cannot_serialize v (py_type v))))
       \<and> (\<forall>u. ser v = Inr u \<longrightarrow> u = v)"
proof (cases "py_str bs v")
  case (Inl e)
  then have "e = TypeError" by (rule py_str_error)
  with Inl show ?thesis by (simp add: assms)
next
  case (Inr r)
  then show ?thesis by (simp add: assms)
qed

lemma typed_serialize_errors:
  "PointUDT_serialize bs (PStr t) = Inl (TypeError_cannot_serialize (PStr t) T_str)"
  "PointUDT_serialize bs (PPolygon (PList (map PInt ks)) (PList (map float_point cs)))
     = Inl (TypeError_cannot_serialize
             (PPolygon (PList (map PInt ks)) (PList (map float_point cs))) T_Polygon)"
  "PolygonUDT_serialize bs (float_point c) = Inl (TypeError_cannot_serialize (float_point c) T_Point)"
  "PolyLineUDT_serialize bs (PPolygon (PList (map PInt ks)) (PList (map float_point cs)))
     = Inl (TypeError_cannot_serialize
             (PPolygon (PList (map PInt ks)) (PList (map float_point cs))) T_Polygon)"
  by (simp_all add: PointUDT_serialize_def PolygonUDT_serialize_def PolyLineUDT_serialize_def
      isinstance_def str_int_list str_float_points float_point_def)

text \<open>
  C4. For each of the three codecs and every value \<open>v\<close>: \<open>serialize\<close> returns \<open>v\<close>
  itself when \<open>v\<close> is an instance of the codec's shape; otherwise it raises, and what it
  raises is a TypeError: the one that carries \<open>v\<close> and its type whenever \<open>v\<close> can be
  rendered for the message (otherwise the TypeError of that rendering). It never returns a
  value other than its input. Strings and the shapes of the data model can be rendered, so
  a codec given one of them that is not of its shape raises the error that names it.
\<close>

theorem serialize_identity_or_TypeError:
  "(isinstance v T_Point \<longrightarrow> PointUDT_serialize bs v = Inr v)
   \<and> (\<not> isinstance v T_Point \<longrightarrow>
        PointUDT_serialize bs v = Inl (TypeError_cannot_serialize v (py_type v))
        \<or> PointUDT_serialize bs v = Inl TypeError)
   \<and> (\<not> isinstance v T_Point \<longrightarrow> (\<forall>r. py_str bs v = Inr r \<longrightarrow>
        PointUDT_serialize bs v = Inl (TypeError_cannot_serialize v (py_type v))))
   \<and> (\<forall>u. PointUDT_serialize bs v = Inr u \<longrightarrow> u = v)
   \<and> (isinstance v T_Polygon \<longrightarrow> PolygonUDT_serialize bs v = Inr v)
   \<and> (\<not> isinstance v T_Polygon \<longrightarrow>
        PolygonUDT_serialize bs v = Inl (TypeError_cannot_serialize v (py_type v))
        \<or> PolygonUDT_serialize bs v = Inl TypeError)
   \<and> (\<not> isinstance v T_Polygon \<longrightarrow> (\<forall>r. py_str bs v = Inr r \<longrightarrow>
        PolygonUDT_serialize bs v = Inl (TypeError_cannot_serialize v (py_type v))))
   \<and> (\<forall>u. PolygonUDT_serialize bs v = Inr u \<longrightarrow> u = v)
   \<and> (isinstance v T_PolyLine \<longrightarrow> PolyLineUDT_serialize bs v = Inr v)
   \<and> (\<not> isinstance v T_PolyLine \<longrightarrow>
        PolyLineUDT_serialize bs v = Inl (TypeError_cannot_serialize v (py_type v))
        \<or> PolyLineUDT_serialize bs v = Inl TypeError)
   \<and> (\<not> isinstance v T_PolyLine \<longrightarrow> (\<forall>r. py_str bs v = Inr r \<longrightarrow>
        PolyLineUDT_serialize bs v = Inl (TypeError_cannot_serialize v (py_type v))))
   \<and> (\<forall>u. PolyLineUDT_serialize bs v = Inr u \<longrightarrow> u = v)
   \<and> PointUDT_serialize bs (PStr t) = Inl (TypeError_cannot_serialize (PStr t) T_str)
   \<and> PointUDT_serialize bs (PPolygon (PList (map PInt ks)) (PList (map float_point cs)))
       = Inl (TypeError_cannot_serialize
               (PPolygon (PList (map PInt ks)) (PList (map float_point cs))) T_Polygon)
   \<and> PolygonUDT_serialize bs (float_point c)
       = Inl (TypeError_cannot_serialize (float_point c) T_Point)
   \<and> PolyLineUDT_serialize bs (PPolygon (PList (map PInt ks)) (PList (map float_point cs)))
       = Inl (TypeError_cannot_serialize
               (PPolygon (PList (map PInt ks)) (PList (map float_point cs))) T_Polygon)"
proof -
  have p: "PointUDT_serialize bs = (\<lambda>obj. if isinstance obj T_Point then Inr obj
             else py_bind (py_str bs obj) (\<lambda>r.
               Inl (TypeError_cannot_serialize obj (py_type obj))))"
    by (rule ext) (simp add: PointUDT_serialize_def)
  have g: "PolygonUDT_serialize bs = (\<lambda>obj. if isinstance obj T_Polygon then Inr obj
             else py_bind (py_str bs obj) (\<lambda>r.
               Inl (TypeError_cannot_serialize obj (py_type obj))))"
    by (rule ext) (simp add: PolygonUDT_serialize_def)
  have l: "PolyLineUDT_serialize bs = (\<lambda>obj. if isinstance obj T_PolyLine then Inr obj
             else py_bind (py_str bs obj) (\<lambda>r.
               Inl (TypeError_cannot_serialize obj (py_type obj))))"
    by (rule ext) (simp add: PolyLineUDT_serialize_def)
  note P = serialize_cases [OF p, of v] and G = serialize_cases [OF g, of v]
    and L = serialize_cases [OF l, of v]
  show ?thesis
    by (intro conjI P [THEN conjunct1] P [THEN conjunct2, THEN conjunct1]
        P [THEN conjunct2, THEN conjunct2, THEN conjunct1]
        P [THEN conjunct2, THEN conjunct2, THEN conjunct2]
        G [THEN conjunct1] G [THEN conjunct2, THEN conjunct1]
        G [THEN conjunct2, THEN conjunct2, THEN conjunct1]
        G [THEN conjunct2, THEN conjunct2, THEN conjunct2]
        L [THEN conjunct1] L [THEN conjunct2, THEN conjunct1]
        L [THEN conjunct2, THEN conjunct2, THEN conjunct1]
        L [THEN conjunct2, THEN conjunct2, THEN conjunct2]
        typed_serialize_errors)
qed

theorem serialize_identity_or_TypeError_witness:
  "PointUDT_serialize bs_repr (PStr ''not a point'')
     = Inl (TypeError_cannot_serialize (PStr ''not a point'') T_str)
   \<and> PointUDT_serialize bs_repr (PPoint (PInt 1) (PInt 2)) = Inr (PPoint (PInt 1) (PInt 2))
   \<and> PolygonUDT_serialize bs_repr (PPoint (PInt 1) (PInt 2))
     = Inl (TypeError_cannot_serialize (PPoint (PInt 1) (PInt 2)) T_Point)
   \<and> PolyLineUDT_serialize bs_repr (PPolyLine (PList []) (PList []))
     = Inr (PPolyLine (PList []) (PList []))"
  using serialize_identity_or_TypeError [of "PStr ''not a point''" bs_repr]
    serialize_identity_or_TypeError [of "PPoint (PInt 1) (PInt 2)" bs_repr]
    serialize_identity_or_TypeError [of "PPolyLine (PList []) (PList [])" bs_repr]
  by (simp add: isinstance_def dec_int_def dec_nat.simps)

section \<open>Deserialize\<close>

text \<open>A concrete stand-in for the interpreter's comparison of containers and of objects
  without \<^verbatim>\<open>__eq__\<close>, for the closed instances below.\<close>

definition ceq_never :: "pyval \<Rightarrow> pyval \<Rightarrow> bool" where
  "ceq_never a b = False"

text \<open>
  C1, as amended. Deserializing the triple \<open>(1, x, y)\<close> through the Point codec yields
  the Point with exactly these two coordinates, whatever they are; for float coordinates the
  bit patterns are kept. The result equals the original Point under \<^verbatim>\<open>Point.__eq__\<close>
  exactly when neither coordinate is a NaN.
\<close>

theorem Point_triple_roundtrip:
  "PointUDT_deserialize (PTuple [PInt 1, x, y]) = Inr (PPoint x y)
   \<and> PointUDT_deserialize (PTuple [PInt 1, PFloat a, PFloat b])
       = Inr (PPoint (PFloat a) (PFloat b))
   \<and> (Point_eq ceq (PPoint (PFloat a) (PFloat b)) (PPoint (PFloat a) (PFloat b))
        \<longleftrightarrow> \<not> float_is_nan a \<and> \<not> float_is_nan b)"
  by (simp add: PointUDT_deserialize_def isinstance_def Point_init_def Point_eq_def float_eq_def)

text \<open>The Point (1.0, -2.0) is equal to its round trip.\<close>

theorem Point_triple_roundtrip_witness:
  "\<not> float_is_nan 0x3FF0000000000000 \<and> \<not> float_is_nan 0xC000000000000000
   \<and> PointUDT_deserialize (PTuple [PInt 1, PFloat 0x3FF0000000000000, PFloat 0xC000000000000000])
       = Inr (PPoint (PFloat 0x3FF0000000000000) (PFloat 0xC000000000000000))
   \<and> Point_eq ceq_never (PPoint (PFloat 0x3FF0000000000000) (PFloat 0xC000000000000000))
        (PPoint (PFloat 0x3FF0000000000000) (PFloat 0xC000000000000000))"
  using Point_triple_roundtrip [of _ _ "0x3FF0000000000000" "0xC000000000000000" ceq_never]
  by (simp add: float_is_nan_def float_exp_def float_frac_def)

text \<open>The Point (NaN, 0.0) is decoded with its coordinates intact and is not equal to
  itself.\<close>

theorem Point_triple_roundtrip_counterexample:
  "PointUDT_deserialize (PTuple [PInt 1, PFloat 0x7FF8000000000000, PFloat 0])
     = Inr (PPoint (PFloat 0x7FF8000000000000) (PFloat 0))
   \<and> \<not> Point_eq ceq_never (PPoint (PFloat 0x7FF8000000000000) (PFloat 0))
          (PPoint (PFloat 0x7FF8000000000000) (PFloat 0))"
  by (simp add: PointUDT_deserialize_def isinstance_def Point_init_def Point_eq_def float_eq_def
      float_is_nan_def float_exp_def float_frac_def)

lemma PolygonUDT_deserialize_triple:
  "py_eq_int tag 5 \<Longrightarrow>
   PolygonUDT_deserialize (PTuple [tag, inds, PList pts])
     = py_bind (comprehension PointUDT_deserialize pts) (\<lambda>ps. Inr (PPolygon inds (PList ps)))"
  by (simp add: PolygonUDT_deserialize_def isinstance_def Polygon_init_def)

lemma PolyLineUDT_deserialize_triple:
  "py_eq_int tag 3 \<Longrightarrow> py_str bs (PTuple [tag, inds, PList pts]) = Inr s \<Longrightarrow>
   PolyLineUDT_deserialize bs (PTuple [tag, inds, PList pts]) w
     = (py_bind (comprehension PointUDT_deserialize pts) (\<lambda>ps. Inr (PPolyLine inds (PList ps))),
        w\<lparr>printed := printed w @ [s]\<rparr>)"
  by (simp add: PolyLineUDT_deserialize_def isinstance_def PolyLine_init_def py_print_def)

lemma comprehension_nth:
  "comprehension f xs = Inr ys \<Longrightarrow>
   length ys = length xs \<and> (\<forall>i<length xs. f (xs ! i) = Inr (ys ! i))"
  by (simp add: comprehension_list_all2 list_all2_conv_all_nth)

lemma typed_deserialize:
  "PolygonUDT_deserialize (PTuple [PInt 5, PList (map PInt ks), PList (map point_triple cs)])
     = Inr (PPolygon (PList (map PInt ks)) (PList (map float_point cs)))"
  "fst (PolyLineUDT_deserialize bs
          (PTuple [PInt 3, PList (map PInt ks), PList (map point_triple cs)]) w)
     = Inr (PPolyLine (PList (map PInt ks)) (PList (map float_point cs)))"
  by (simp_all add: PolygonUDT_deserialize_triple
      PolyLineUDT_deserialize_triple [OF _ str_shape_triple] deserialize_point_triples)

text \<open>
  C2. Take a triple \<open>(tag, inds, pts)\<close> whose elements of \<open>pts\<close> the Point codec decodes
  (point triples or Points). With the tag of a Polygon, \<^verbatim>\<open>PolygonUDT.deserialize\<close> returns a
  Polygon whose \<open>indices\<close> is \<open>inds\<close> itself and whose \<open>points\<close> is a list as long as
  \<open>pts\<close>, the \<open>i\<close>-th being what \<^verbatim>\<open>PointUDT.deserialize\<close> returns for \<open>pts[i]\<close>. With
  the tag of a PolyLine, \<^verbatim>\<open>PolyLineUDT.deserialize\<close> returns such a PolyLine (the triple
  being one that \<^verbatim>\<open>print\<close> can render). For the triples of the data model, int indices
  \<open>ks\<close> and the point triples of float pairs \<open>cs\<close>, the entity has the indices \<open>ks\<close> and
  the Points of \<open>cs\<close>, in order.
\<close>

theorem deserialize_decodes_each_point:
  assumes "\<forall>p \<in> set pts. \<exists>q. PointUDT_deserialize p = Inr q"
  shows "(py_eq_int tag 5 \<longrightarrow>
           (\<exists>ps. PolygonUDT_deserialize (PTuple [tag, inds, PList pts])
                    = Inr (PPolygon inds (PList ps))
                \<and> length ps = length pts
                \<and> (\<forall>i<length pts. PointUDT_deserialize (pts ! i) = Inr (ps ! i))))
       \<and> (py_eq_int tag 3 \<longrightarrow> py_str bs (PTuple [tag, inds, PList pts]) = Inr s \<longrightarrow>
           (\<exists>ps. fst (PolyLineUDT_deserialize bs (PTuple [tag, inds, PList pts]) w)
                    = Inr (PPolyLine inds (PList ps))
                \<and> length ps = length pts
                \<and> (\<forall>i<length pts. PointUDT_deserialize (pts ! i) = Inr (ps ! i))))
       \<and> PolygonUDT_deserialize
           (PTuple [PInt 5, PList (map PInt ks), PList (map point_triple cs)])
         = Inr (PPolygon (PList (map PInt ks)) (PList (map float_point cs)))
       \<and> fst (PolyLineUDT_deserialize bs
                (PTuple [PInt 3, PList (map PInt ks), PList (map point_triple cs)]) w)
         = Inr (PPolyLine (PList (map PInt ks)) (PList (map float_point cs)))"
proof -
  from assms obtain ps where ps: "comprehension PointUDT_deserialize pts = Inr ps"
    using comprehension_succeeds by blast
  note nth = comprehension_nth [OF ps]
  have "py_eq_int tag 5 \<Longrightarrow>
      PolygonUDT_deserialize (PTuple [tag, inds, PList pts]) = Inr (PPolygon inds (PList ps))"
    by (simp add: PolygonUDT_deserialize_triple ps)
  moreover have "py_eq_int tag 3 \<Longrightarrow> py_str bs (PTuple [tag, inds, PList pts]) = Inr s \<Longrightarrow>
      fst (PolyLineUDT_deserialize bs (PTuple [tag, inds, PList pts]) w)
        = Inr (PPolyLine inds (PList ps))"
    by (simp add: PolyLineUDT_deserialize_triple ps)
  ultimately show ?thesis using nth typed_deserialize by blast
qed

text \<open>The state of a fresh process: nothing printed, nothing registered.\<close>

definition world0 :: world where
  "world0 = \<lparr>printed = [], initialized = False, registered = 0\<rparr>"

text \<open>A Polygon and a PolyLine decoded from a raw point triple (1.0, 2.0) and a Point.\<close>

theorem deserialize_decodes_each_point_witness:
  "PointUDT_deserialize (PTuple [PInt 1, PFloat 0x3FF0000000000000, PFloat 0x4000000000000000])
     = Inr (PPoint (PFloat 0x3FF0000000000000) (PFloat 0x4000000000000000))
   \<and> PointUDT_deserialize (PPoint (PInt 0) (PInt 0)) = Inr (PPoint (PInt 0) (PInt 0))
   \<and> py_eq_int (PInt 5) 5
   \<and> PolygonUDT_deserialize (PTuple [PInt 5, PList [PInt 0],
         PList [PTuple [PInt 1, PFloat 0x3FF0000000000000, PFloat 0x4000000000000000],
                PPoint (PInt 0) (PInt 0)]])
       = Inr (PPolygon (PList [PInt 0])
               (PList [PPoint (PFloat 0x3FF0000000000000) (PFloat 0x4000000000000000),
                       PPoint (PInt 0) (PInt 0)]))
   \<and> py_eq_int (PInt 3) 3
   \<and> py_str bs_repr (PTuple [PInt 3, PList [PInt 0],
         PList [PTuple [PInt 1, PFloat 0x3FF0000000000000, PFloat 0x4000000000000000],
                PPoint (PInt 0) (PInt 0)]]) = Inr ''<tuple>''
   \<and> fst (PolyLineUDT_deserialize bs_repr (PTuple [PInt 3, PList [PInt 0],
         PList [PTuple [PInt 1, PFloat 0x3FF0000000000000, PFloat 0x4000000000000000],
                PPoint (PInt 0) (PInt 0)]]) world0)
       = Inr (PPolyLine (PList [PInt 0])
               (PList [PPoint (PFloat 0x3FF0000000000000) (PFloat 0x4000000000000000),
                       PPoint (PInt 0) (PInt 0)]))"
proof -
  have pts: "\<forall>p \<in> set [PTuple [PInt 1, PFloat 0x3FF0000000000000, PFloat 0x4000000000000000],
                     PPoint (PInt 0) (PInt 0)]. \<exists>q. PointUDT_deserialize p = Inr q"
    by (simp add: PointUDT_deserialize_def isinstance_def)
  have pr: "py_str bs_repr (PTuple [PInt 3, PList [PInt 0],
         PList [PTuple [PInt 1, PFloat 0x3FF0000000000000, PFloat 0x4000000000000000],
                PPoint (PInt 0) (PInt 0)]]) = Inr ''<tuple>''"
    by (simp add: bs_repr_def dec_int_def dec_nat.simps)
  show ?thesis
    using deserialize_decodes_each_point [OF pts, of "PInt 5" "PList [PInt 0]"]
      deserialize_decodes_each_point [OF pts, of "PInt 3" "PList [PInt 0]" bs_repr
        "''<tuple>''" world0] pr
    by (simp add: PointUDT_deserialize_def PolygonUDT_deserialize_def
        PolyLineUDT_deserialize_def py_print_def isinstance_def Point_init_def
        Polygon_init_def PolyLine_init_def)
qed

lemma deserialize_length_error:
  "\<not> isinstance d T_Point \<Longrightarrow> py_len d = Inr n \<Longrightarrow> n \<noteq> 3 \<Longrightarrow>
   PointUDT_deserialize d = Inl (AssertionError
     (''PointUDT.deserialize given row with length '' @ dec_nat n @ '' but requires 3''))"
  "\<not> isinstance d T_Polygon \<Longrightarrow> py_len d = Inr n \<Longrightarrow> n \<noteq> 3 \<Longrightarrow>
   PolygonUDT_deserialize d = Inl (AssertionError
     (''PolygonUDT.deserialize given row with length '' @ dec_nat n @ '' but requires 4''))"
  "\<not> isinstance d T_PolyLine \<Longrightarrow> py_len d = Inr n \<Longrightarrow> n \<noteq> 3 \<Longrightarrow>
   PolyLineUDT_deserialize bs d w = (Inl (AssertionError
     (''PolyLineUDT.deserialize given row with length '' @ dec_nat n @ '' but requires 4'')), w)"
  by (simp_all add: PointUDT_deserialize_def PolygonUDT_deserialize_def
      PolyLineUDT_deserialize_def)

lemma deserialize_tag_error:
  "\<not> isinstance d T_Point \<Longrightarrow> py_len d = Inr 3 \<Longrightarrow> py_getitem d 0 = Inr tpe \<Longrightarrow>
   \<not> py_eq_int tpe 1 \<Longrightarrow>
   PointUDT_deserialize d = Inl (AssertionError ''Point should have type = 1'')"
  "\<not> isinstance d T_Polygon \<Longrightarrow> py_len d = Inr 3 \<Longrightarrow> py_getitem d 0 = Inr tpe \<Longrightarrow>
   \<not> py_eq_int tpe 5 \<Longrightarrow>
   PolygonUDT_deserialize d = Inl (AssertionError ''Polygon should have type = 5'')"
  "\<not> isinstance d T_PolyLine \<Longrightarrow> py_len d = Inr 3 \<Longrightarrow> py_getitem d 0 = Inr tpe \<Longrightarrow>
   \<not> py_eq_int tpe 3 \<Longrightarrow> py_str bs d = Inr s \<Longrightarrow>
   fst (PolyLineUDT_deserialize bs d w) = Inl (AssertionError ''PolyLine should have type = 3'')"
  by (simp_all add: PointUDT_deserialize_def PolygonUDT_deserialize_def
      PolyLineUDT_deserialize_def py_print_def)

text \<open>
  C3. Let the datum be no instance of the codec's shape and have a length (a tuple, list,
  string or dict). If the length is not 3, \<open>deserialize\<close> fails with an AssertionError
  whose message names the length. If the length is 3 and the first element is not equal to
  the discriminant of the variant (1, 5, 3), it fails with the AssertionError of the tag
  (for a PolyLine, once the datum has been printed). In particular
  \<^verbatim>\<open>PointUDT.deserialize((2, 1.0, 2.0))\<close> fails on the tag and
  \<^verbatim>\<open>PointUDT.deserialize((1, 2, 3, 4))\<close> on the length.
\<close>

theorem deserialize_rejects_arity_and_tag:
  "(\<not> isinstance d T_Point \<longrightarrow> py_len d = Inr n \<longrightarrow> n \<noteq> 3 \<longrightarrow>
      PointUDT_deserialize d = Inl (AssertionError
        (''PointUDT.deserialize given row with length '' @ dec_nat n @ '' but requires 3'')))
   \<and> (\<not> isinstance d T_Point \<longrightarrow> py_len d = Inr 3 \<longrightarrow> py_getitem d 0 = Inr tpe \<longrightarrow>
      \<not> py_eq_int tpe 1 \<longrightarrow>
      PointUDT_deserialize d = Inl (AssertionError ''Point should have type = 1''))
   \<and> (\<not> isinstance d T_Polygon \<longrightarrow> py_len d = Inr n \<longrightarrow> n \<noteq> 3 \<longrightarrow>
      PolygonUDT_deserialize d = Inl (AssertionError
        (''PolygonUDT.deserialize given row with length '' @ dec_nat n @ '' but requires 4'')))
   \<and> (\<not> isinstance d T_Polygon \<longrightarrow> py_len d = Inr 3 \<longrightarrow> py_getitem d 0 = Inr tpe \<longrightarrow>
      \<not> py_eq_int tpe 5 \<longrightarrow>
      PolygonUDT_deserialize d = Inl (AssertionError ''Polygon should have type = 5''))
   \<and> (\<not> isinstance d T_PolyLine \<longrightarrow> py_len d = Inr n \<longrightarrow> n \<noteq> 3 \<longrightarrow>
      fst (PolyLineUDT_deserialize bs d w) = Inl (AssertionError
        (''PolyLineUDT.deserialize given row with length '' @ dec_nat n @ '' but requires 4'')))
   \<and> (\<not> isinstance d T_PolyLine \<longrightarrow> py_len d = Inr 3 \<longrightarrow> py_getitem d 0 = Inr tpe \<longrightarrow>
      \<not> py_eq_int tpe 3 \<longrightarrow> py_str bs d = Inr s \<longrightarrow>
      fst (PolyLineUDT_deserialize bs d w)
        = Inl (AssertionError ''PolyLine should have type = 3''))
   \<and> PointUDT_deserialize (PTuple [PInt 2, PFloat 0x3FF0000000000000, PFloat 0x4000000000000000])
       = Inl (AssertionError ''Point should have type = 1'')
   \<and> PointUDT_deserialize (PTuple [PInt 1, PInt 2, PInt 3, PInt 4])
       = Inl (AssertionError ''PointUDT.deserialize given row with length 4 but requires 3'')"
proof -
  have "PointUDT_deserialize
          (PTuple [PInt 2, PFloat 0x3FF0000000000000, PFloat 0x4000000000000000])
        = Inl (AssertionError ''Point should have type = 1'')"
    by (rule deserialize_tag_error(1) [where tpe = "PInt 2"]) (simp_all add: isinstance_def)
  moreover have "PointUDT_deserialize (PTuple [PInt 1, PInt 2, PInt 3, PInt 4])
        = Inl (AssertionError ''PointUDT.deserialize given row with length 4 but requires 3'')"
    using deserialize_length_error(1) [of "PTuple [PInt 1, PInt 2, PInt 3, PInt 4]" 4]
    by (simp add: isinstance_def dec_nat.simps)
  ultimately show ?thesis
    by (simp add: deserialize_length_error deserialize_tag_error)
qed

text \<open>A list of two elements and a triple tagged 3 given to the Polygon codec; a triple
  tagged 5.0 given to the PolyLine codec.\<close>

theorem deserialize_rejects_arity_and_tag_witness:
  "PolygonUDT_deserialize (PList [PInt 5, PList []])
     = Inl (AssertionError ''PolygonUDT.deserialize given row with length 2 but requires 4'')
   \<and> PolygonUDT_deserialize (PTuple [PInt 3, PList [], PList []])
     = Inl (AssertionError ''Polygon should have type = 5'')
   \<and> fst (PolyLineUDT_deserialize bs_repr
            (PTuple [PFloat 0x4014000000000000, PList [], PList []]) world0)
     = Inl (AssertionError ''PolyLine should have type = 3'')
   \<and> PointUDT_deserialize (PStr ''abcde'')
     = Inl (AssertionError ''PointUDT.deserialize given row with length 5 but requires 3'')"
  using deserialize_rejects_arity_and_tag [of "PList [PInt 5, PList []]" 2]
    deserialize_rejects_arity_and_tag [of "PTuple [PInt 3, PList [], PList []]" 3 "PInt 3"]
    deserialize_rejects_arity_and_tag [of "PTuple [PFloat 0x4014000000000000, PList [], PList []]"
      3 "PFloat 0x4014000000000000" bs_repr world0 "''<tuple>''"]
    deserialize_rejects_arity_and_tag [of "PStr ''abcde''" 5]
  by (simp add: isinstance_def dec_nat.simps dec_int_def bs_repr_def float_eq_int_def
      float_exp_def float_frac_def float_sign_def)

section \<open>Registration happens once; the self-descriptions\<close>

text \<open>The host lets the registration go through: there is an active SparkContext and the
  class \<^verbatim>\<open>EvaluatePython\<close> has a method named \<^verbatim>\<open>registerPicklers\<close>.\<close>

definition host_provides_registration :: "host \<Rightarrow> bool" where
  "host_provides_registration h =
     (active_spark_context h \<and>
      (case evaluate_python_methods h of
         None \<Rightarrow> False
       | Some mthds \<Rightarrow> ''registerPicklers'' \<in> set mthds))"

text \<open>A host with the bridge installed.\<close>

definition host0 :: host where
  "host0 = \<lparr>active_spark_context = True,
            evaluate_python_methods = Some [''toJava'', ''registerPicklers'', ''equals'']\<rparr>"

lemma fold_finds_method:
  "fold (\<lambda>mthd wm. if mthd = n then Some mthd else wm) mthds acc = None
     \<longleftrightarrow> n \<notin> set mthds \<and> acc = None"
  by (induction mthds arbitrary: acc) auto

lemma registerPicklers_first:
  assumes "host_provides_registration h" and "\<not> initialized w"
  shows "registerPicklers h self w
           = (Inr PNone, w\<lparr>registered := registered w + 1, initialized := True\<rparr>)"
proof -
  from assms(1) obtain mthds where m: "evaluate_python_methods h = Some mthds"
    and n: "''registerPicklers'' \<in> set mthds" and a: "active_spark_context h"
    by (auto simp: host_provides_registration_def split: option.splits)
  from n have "fold (\<lambda>mthd wm. if mthd = ''registerPicklers'' then Some mthd else wm) mthds None
      \<noteq> None"
    by (simp add: fold_finds_method)
  with m a assms(2) show ?thesis by (simp add: registerPicklers_def)
qed

lemma registerPicklers_later:
  "initialized w \<Longrightarrow> registerPicklers h self w = (Inr PNone, w)"
  by (simp add: registerPicklers_def)

lemma registerPicklers_all_later:
  "initialized w \<Longrightarrow> registerPicklers_all h selfs w = (Inr PNone, w)"
  by (induction selfs) (simp_all add: registerPicklers_later)

text \<open>
  C9. On a host where the registration goes through, and starting with the flag unset,
  invoking the hook once for each of any non-empty list of objects (Points, Polygons,
  PolyLines in any mix) performs the JVM registration exactly once: the counter goes up by
  one and the flag is set. The first invocation is the one that does it, and an invocation
  made while the flag is set changes nothing.
\<close>

theorem registration_exactly_once:
  assumes "host_provides_registration h" and "\<not> initialized w" and "selfs \<noteq> []"
  shows "registerPicklers_all h selfs w
           = (Inr PNone, w\<lparr>registered := registered w + 1, initialized := True\<rparr>)
       \<and> registerPicklers h (hd selfs) w
           = (Inr PNone, w\<lparr>registered := registered w + 1, initialized := True\<rparr>)
       \<and> (\<forall>w' self. initialized w' \<longrightarrow> registerPicklers h self w' = (Inr PNone, w'))"
proof -
  from assms(3) obtain self rest where selfs: "selfs = self # rest" by (cases selfs) auto
  have first: "registerPicklers h self w
      = (Inr PNone, w\<lparr>registered := registered w + 1, initialized := True\<rparr>)"
    using assms(1,2) by (rule registerPicklers_first)
  have "registerPicklers_all h selfs w
      = registerPicklers_all h rest (w\<lparr>registered := registered w + 1, initialized := True\<rparr>)"
    by (simp add: selfs first)
  also have "\<dots> = (Inr PNone, w\<lparr>registered := registered w + 1, initialized := True\<rparr>)"
    by (rule registerPicklers_all_later) simp
  finally show ?thesis using first selfs by (simp add: registerPicklers_later)
qed

text \<open>Four invocations from the three variants in a fresh process: one registration.\<close>

theorem registration_exactly_once_witness:
  "host_provides_registration host0 \<and> \<not> initialized world0
   \<and> registerPicklers_all host0
        [PPoint (PInt 0) (PInt 0), PPolygon (PList []) (PList []), PPolyLine (PList []) (PList []),
         PPoint (PInt 1) (PInt 1)] world0
       = (Inr PNone, \<lparr>printed = [], initialized = True, registered = 1\<rparr>)"
  using registration_exactly_once [of host0 world0
      "[PPoint (PInt 0) (PInt 0), PPolygon (PList []) (PList []), PPolyLine (PList []) (PList []),
        PPoint (PInt 1) (PInt 1)]"]
  by (simp add: host_provides_registration_def host0_def world0_def)



lemma jsonValue_succeeds:
  "fst (registerPicklers h p w) = Inr u \<Longrightarrow> \<exists>m. fst (Point_jsonValue h p w) = Inr m"
  "fst (registerPicklers h p w) = Inr u \<Longrightarrow> \<exists>m. fst (Polygon_jsonValue h p w) = Inr m"
  "fst (registerPicklers h p w) = Inr u \<Longrightarrow> \<exists>m. fst (PolyLine_jsonValue h p w) = Inr m"
  by (auto simp: Point_jsonValue_def Polygon_jsonValue_def PolyLine_jsonValue_def
      split: prod.splits sum.splits)




section \<open>Effects of the codec operations\<close>





















section \<open>The renderings of the three shapes\<close>

text \<open>\<^verbatim>\<open>str\<close> of an instance is the \<^verbatim>\<open>__str__\<close> of its class.\<close>

lemma py_str_dispatch:
  "py_str bs (PPoint x y) = Point_str bs (PPoint x y)"
  "py_str bs (PPolygon i p) = Polygon_str bs (PPolygon i p)"
  "py_str bs (PPolyLine i p) = PolyLine_str bs (PPolyLine i p)"
  by (simp_all add: Point_str_def Polygon_str_def PolyLine_str_def)

text \<open>
  C7. The rendering of a Point whose coordinates render as \<open>sx\<close> and \<open>sy\<close> is
  \<open>Point (\<close>, \<open>sx\<close>, a comma, \<open>sy\<close> and \<open>)\<close>. For a Polygon whose indices render as
  the strings \<open>ss\<close> and whose points render as the strings \<open>ts\<close>, the rendering is
  \<open>Polygon (\<close>, the comma-joined \<open>ss\<close> in brackets, a comma, the comma-joined \<open>ts\<close> in
  brackets, and \<open>)\<close>. A PolyLine with the same fields renders to the very same string,
  prefix \<open>Polygon (\<close> included. For the shapes of the data model (float coordinates, int
  indices \<open>ks\<close>, the Points of the float pairs \<open>cs\<close>) the strings are given in full, with
  \<open>bs\<close> the interpreter's \<^verbatim>\<open>str\<close> of a float.
\<close>

theorem shape_string_rendering:
  "(py_str bs x = Inr sx \<longrightarrow> py_str bs y = Inr sy \<longrightarrow>
      Point_str bs (PPoint x y) = Inr (''Point ('' @ sx @ '','' @ sy @ '')''))
   \<and> (py_iter inds = Inr ixs \<longrightarrow> list_all2 (\<lambda>i s. py_str bs i = Inr s) ixs ss \<longrightarrow>
       py_iter pts = Inr vs \<longrightarrow> list_all2 (\<lambda>v t. py_str bs v = Inr t) vs ts \<longrightarrow>
        Polygon_str bs (PPolygon inds pts)
          = Inr (''Polygon ('' @ ''['' @ py_join '','' ss @ '']'' @ '',''
                  @ ''['' @ py_join '','' ts @ '']'' @ '')'')
        \<and> PolyLine_str bs (PPolyLine inds pts)
          = Inr (''Polygon ('' @ ''['' @ py_join '','' ss @ '']'' @ '',''
                  @ ''['' @ py_join '','' ts @ '']'' @ '')''))
   \<and> PolyLine_str bs (PPolyLine inds pts) = Polygon_str bs (PPolygon inds pts)
   \<and> Point_str bs (PPoint (PFloat a) (PFloat b))
       = Inr (''Point ('' @ bs (PFloat a) @ '','' @ bs (PFloat b) @ '')'')
   \<and> Polygon_str bs (PPolygon (PList (map PInt ks)) (PList (map float_point cs)))
       = Inr (''Polygon ('' @ ''['' @ py_join '','' (map dec_int ks) @ '']'' @ '',''
               @ ''['' @ py_join '','' (map (\<lambda>c. ''Point ('' @ bs (PFloat (fst c)) @ '',''
                                             @ bs (PFloat (snd c)) @ '')'') cs) @ '']'' @ '')'')
   \<and> PolyLine_str bs (PPolyLine (PList (map PInt ks)) (PList (map float_point cs)))
       = Inr (''Polygon ('' @ ''['' @ py_join '','' (map dec_int ks) @ '']'' @ '',''
               @ ''['' @ py_join '','' (map (\<lambda>c. ''Point ('' @ bs (PFloat (fst c)) @ '',''
                                             @ bs (PFloat (snd c)) @ '')'') cs) @ '']'' @ '')'')"
  by (simp add: Point_str_def Polygon_str_def PolyLine_str_def
      comprehension_list_all2 [symmetric] str_int_list str_float_points)

text \<open>\<^verbatim>\<open>Point(1, -2)\<close>, and a Polygon and a PolyLine of two parts and two points.\<close>

theorem shape_string_rendering_witness:
  "Point_str bs_repr (PPoint (PInt 1) (PInt (- 2))) = Inr ''Point (1,-2)''
   \<and> Polygon_str bs_repr (PPolygon (PList [PInt 0, PInt 3])
        (PList [PPoint (PInt 1) (PInt 2), PPoint (PInt 30) (PInt 4)]))
       = Inr ''Polygon ([0,3],[Point (1,2),Point (30,4)])''
   \<and> PolyLine_str bs_repr (PPolyLine (PList [PInt 0, PInt 3])
        (PList [PPoint (PInt 1) (PInt 2), PPoint (PInt 30) (PInt 4)]))
       = Inr ''Polygon ([0,3],[Point (1,2),Point (30,4)])''"
  using shape_string_rendering [of bs_repr "PInt 1" "''1''" "PInt (- 2)" "''-2''"
      "PList [PInt 0, PInt 3]" "[PInt 0, PInt 3]" "[''0'', ''3'']"
      "PList [PPoint (PInt 1) (PInt 2), PPoint (PInt 30) (PInt 4)]"
      "[PPoint (PInt 1) (PInt 2), PPoint (PInt 30) (PInt 4)]"
      "[''Point (1,2)'', ''Point (30,4)'']"]
  by (simp add: dec_int_def dec_nat.simps)

section \<open>Resolving the envelope\<close>

lemma rfind_absent: "c \<notin> set s \<Longrightarrow> rfind s c = - 1"
  by (induction s) (auto simp: Let_def)

lemma rfind_present: "c \<in> set s \<Longrightarrow> 0 \<le> rfind s c"
  by (induction s) (auto simp: Let_def)

lemma rfind_append: "c \<in> set s \<Longrightarrow> rfind (m @ s) c = int (length m) + rfind s c"
proof (induction m)
  case Nil
  then show ?case by simp
next
  case (Cons a m)
  then have "0 \<le> rfind (m @ s) c" by (intro rfind_present) simp
  with Cons show ?case by (simp add: Let_def)
qed

lemma rfind_last_dot:
  assumes "c \<notin> set cls"
  shows "rfind (m @ c # cls) c = int (length m)"
proof -
  have "rfind (c # cls) c = 0" using assms by (simp add: rfind_absent Let_def)
  then show ?thesis using rfind_append [of c "c # cls" m] by simp
qed

lemma split_qualified_name:
  assumes "CHR ''.'' \<notin> set cls"
  shows "py_slice_to (modname @ ''.'' @ cls) (rfind (modname @ ''.'' @ cls) CHR ''.'') = modname"
    and "py_slice_from (modname @ ''.'' @ cls) (rfind (modname @ ''.'' @ cls) CHR ''.'' + 1) = cls"
proof -
  have r: "rfind (modname @ ''.'' @ cls) CHR ''.'' = int (length modname)"
    using rfind_last_dot [OF assms, of modname] by simp
  have n: "nat (int (length modname) + 1) = Suc (length modname)" by simp
  show "py_slice_to (modname @ ''.'' @ cls) (rfind (modname @ ''.'' @ cls) CHR ''.'') = modname"
    unfolding r by (simp add: py_slice_to_def)
  show "py_slice_from (modname @ ''.'' @ cls) (rfind (modname @ ''.'' @ cls) CHR ''.'' + 1) = cls"
    unfolding r by (simp add: py_slice_from_def n)
qed

lemma PointUDT_fromJson_object:
  "py_getitem_str p ''x'' = Inr x \<Longrightarrow> py_getitem_str p ''y'' = Inr y \<Longrightarrow>
   PointUDT_fromJson p = Inr (PPoint x y)"
  by (simp add: PointUDT_fromJson_def Point_init_def)

lemma points_fromJson:
  assumes "\<forall>p \<in> set ps. \<exists>x y. py_getitem_str p ''x'' = Inr x \<and> py_getitem_str p ''y'' = Inr y"
  shows "\<exists>qs. comprehension PointUDT_fromJson ps = Inr qs \<and> length qs = length ps"
proof -
  from assms have "\<forall>p \<in> set ps. \<exists>q. PointUDT_fromJson p = Inr q"
    by (blast intro: PointUDT_fromJson_object)
  then obtain qs where "comprehension PointUDT_fromJson ps = Inr qs"
    using comprehension_succeeds by blast
  then show ?thesis using comprehension_nth by blast
qed

lemma shape_fromJson_object:
  assumes "py_getitem_str j ''indices'' = Inr inds"
    and "py_getitem_str j ''points'' = Inr (PList ps)"
    and "\<forall>p \<in> set ps. \<exists>x y. py_getitem_str p ''x'' = Inr x \<and> py_getitem_str p ''y'' = Inr y"
  shows "\<exists>qs. PolygonUDT_fromJson j = Inr (PPolygon inds (PList qs))
            \<and> PolyLineUDT_fromJson j = Inr (PPolyLine inds (PList qs))
            \<and> Polygon_fromJson j = Inr (PPolygon inds (PList qs))
            \<and> PolyLine_fromJson j = Inr (PPolyLine inds (PList qs))
            \<and> length qs = length ps"
  using points_fromJson [OF assms(3)] assms(1,2)
  by (auto simp: PolygonUDT_fromJson_def PolyLineUDT_fromJson_def Polygon_fromJson_def
      PolyLine_fromJson_def Polygon_init_def PolyLine_init_def)

text \<open>
  C6. Let the envelope text parse to an object \<open>j\<close> whose \<open>pyClass\<close> is a module name,
  a dot and a class name (the class name has no dot, so this dot is the last one). Then
  \<^verbatim>\<open>_inbound_shape_converter\<close> splits the name there, resolves the class in the module and
  returns what the \<^verbatim>\<open>fromJson\<close> of that class returns for the whole of \<open>j\<close>: for the
  three codec classes of \<open>magellan.types\<close>, \<^verbatim>\<open>PointUDT.fromJson(j)\<close>,
  \<^verbatim>\<open>PolygonUDT.fromJson(j)\<close> and \<^verbatim>\<open>PolyLineUDT.fromJson(j)\<close>. In particular an envelope
  that names the Polygon codec and has \<open>indices\<close> and a list \<open>points\<close> of objects with
  \<open>x\<close> and \<open>y\<close> yields a Polygon with these indices and as many points.
\<close>

theorem inbound_shape_converter_dispatch:
  assumes "json_loads js = Inr j"
    and "py_getitem_str j ''pyClass'' = Inr (PStr (modname @ ''.'' @ cls))"
    and "CHR ''.'' \<notin> set cls"
  shows "inbound_shape_converter json_loads bs foreign js
           = call_fromJson foreign (py_import_getattr modname cls) j
       \<and> (modname = ''magellan.types'' \<longrightarrow> cls = ''PointUDT'' \<longrightarrow>
            inbound_shape_converter json_loads bs foreign js = PointUDT_fromJson j)
       \<and> (modname = ''magellan.types'' \<longrightarrow> cls = ''PolygonUDT'' \<longrightarrow>
            inbound_shape_converter json_loads bs foreign js = PolygonUDT_fromJson j)
       \<and> (modname = ''magellan.types'' \<longrightarrow> cls = ''PolyLineUDT'' \<longrightarrow>
            inbound_shape_converter json_loads bs foreign js = PolyLineUDT_fromJson j)
       \<and> (modname = ''magellan.types'' \<longrightarrow> cls = ''PolygonUDT'' \<longrightarrow>
            py_getitem_str j ''indices'' = Inr inds \<longrightarrow>
            py_getitem_str j ''points'' = Inr (PList ps) \<longrightarrow>
            (\<forall>p \<in> set ps. \<exists>x y. py_getitem_str p ''x'' = Inr x \<and> py_getitem_str p ''y'' = Inr y)
            \<longrightarrow> (\<exists>qs. inbound_shape_converter json_loads bs foreign js
                        = Inr (PPolygon inds (PList qs))
                      \<and> length qs = length ps))"
proof -
  have main: "inbound_shape_converter json_loads bs foreign js
           = call_fromJson foreign (py_import_getattr modname cls) j"
    using assms(1,2) split_qualified_name [OF assms(3), of modname]
    by (simp add: inbound_shape_converter_def Let_def)
  have a: "py_import_getattr ''magellan.types'' ''PointUDT'' = C_PointUDT"
    and b: "py_import_getattr ''magellan.types'' ''PolygonUDT'' = C_PolygonUDT"
    and c: "py_import_getattr ''magellan.types'' ''PolyLineUDT'' = C_PolyLineUDT"
    by (simp_all add: py_import_getattr_def)
  show ?thesis
    using main a b c shape_fromJson_object [of j inds ps] by auto
qed


text \<open>An envelope for the Polygon codec, and a parser that knows this one text.\<close>

definition envelope_text :: string where
  \<open>envelope_text =
     ''{"pyClass": "magellan.types.PolygonUDT", "indices": [0, 2], "points": [{"x": 1, "y": 2}]}''\<close>

definition envelope0 :: pyval where
  "envelope0 = PDict [(''pyClass'', PStr ''magellan.types.PolygonUDT''),
                      (''indices'', PList [PInt 0, PInt 2]),
                      (''points'', PList [PDict [(''x'', PInt 1), (''y'', PInt 2)]])]"

definition json_loads0 :: "string \<Rightarrow> pyerror + pyval" where
  "json_loads0 s = (if s = envelope_text then Inr envelope0 else Inl ValueError)"

definition foreign_absent :: "string \<Rightarrow> string \<Rightarrow> pyval \<Rightarrow> pyerror + pyval" where
  "foreign_absent m c j = Inl ImportError"

theorem inbound_shape_converter_dispatch_witness:
  "json_loads0 envelope_text = Inr envelope0
   \<and> py_getitem_str envelope0 ''pyClass'' = Inr (PStr (''magellan.types'' @ ''.'' @ ''PolygonUDT''))
   \<and> CHR ''.'' \<notin> set ''PolygonUDT''
   \<and> inbound_shape_converter json_loads0 bs_repr foreign_absent envelope_text
       = Inr (PPolygon (PList [PInt 0, PInt 2]) (PList [PPoint (PInt 1) (PInt 2)]))"
proof -
  have l: "json_loads0 envelope_text = Inr envelope0" by (simp add: json_loads0_def)
  have c: "py_getitem_str envelope0 ''pyClass''
      = Inr (PStr (''magellan.types'' @ ''.'' @ ''PolygonUDT''))"
    by (simp add: envelope0_def)
  have d: "CHR ''.'' \<notin> set ''PolygonUDT''" by simp
  from inbound_shape_converter_dispatch [where json_loads = json_loads0
      and js = envelope_text and j = envelope0 and modname = "''magellan.types''"
      and cls = "''PolygonUDT''" and bs = bs_repr and foreign = foreign_absent, OF l c d]
  have "inbound_shape_converter json_loads0 bs_repr foreign_absent envelope_text
      = PolygonUDT_fromJson envelope0" by blast
  also have "\<dots> = Inr (PPolygon (PList [PInt 0, PInt 2]) (PList [PPoint (PInt 1) (PInt 2)]))"
    by (simp add: PolygonUDT_fromJson_def PointUDT_fromJson_def envelope0_def Polygon_init_def
        Point_init_def)
  finally show ?thesis using l c d by simp
qed

section \<open>No validation of the shape invariants\<close>

lemma comprehension_succeeds_iff:
  "(\<exists>ys. comprehension f xs = Inr ys) \<longleftrightarrow> (\<forall>x \<in> set xs. \<exists>y. f x = Inr y)"
proof
  assume "\<exists>ys. comprehension f xs = Inr ys"
  then obtain ys where "list_all2 (\<lambda>x y. f x = Inr y) xs ys"
    by (auto simp: comprehension_list_all2)
  then show "\<forall>x \<in> set xs. \<exists>y. f x = Inr y"
    by (auto simp: list_all2_conv_all_nth in_set_conv_nth)
qed (rule comprehension_succeeds)

lemma py_bind_succeeds:
  "(\<exists>r. py_bind m (\<lambda>v. Inr (g v)) = Inr r) \<longleftrightarrow> (\<exists>v. m = Inr v)"
  by (cases m) auto

text \<open>
  C10. For a triple \<open>(tag, inds, pts)\<close> with the tag of the variant, \<open>deserialize\<close>
  succeeds exactly when the Point codec decodes every element of \<open>pts\<close> (for a PolyLine,
  the triple being one that \<^verbatim>\<open>print\<close> can render), and then it builds the entity from
  \<open>inds\<close> as it is and from as many points as \<open>pts\<close> has. Nothing else is looked at: the
  number of points, whether \<open>inds\<close> are non-decreasing offsets into the points, the length
  of a ring and whether it is closed play no part. Likewise the \<^verbatim>\<open>fromJson\<close> of both
  codecs succeeds on every mapping with a key \<open>indices\<close> and a key \<open>points\<close> holding a
  list of objects with \<open>x\<close> and \<open>y\<close>. So for every list \<open>ks\<close> of ints and every list
  \<open>cs\<close> of float pairs, whatever their lengths and values, the triple and the JSON object
  made of them are decoded.
\<close>

theorem deserialize_ignores_invariants:
  "(py_eq_int tag 5 \<longrightarrow>
      ((\<exists>r. PolygonUDT_deserialize (PTuple [tag, inds, PList pts]) = Inr r)
         \<longleftrightarrow> (\<forall>p \<in> set pts. \<exists>q. PointUDT_deserialize p = Inr q)))
   \<and> (py_eq_int tag 5 \<longrightarrow> (\<forall>p \<in> set pts. \<exists>q. PointUDT_deserialize p = Inr q) \<longrightarrow>
      (\<exists>ps. PolygonUDT_deserialize (PTuple [tag, inds, PList pts])
               = Inr (PPolygon inds (PList ps)) \<and> length ps = length pts))
   \<and> (py_eq_int tag 3 \<longrightarrow> py_str bs (PTuple [tag, inds, PList pts]) = Inr s \<longrightarrow>
      ((\<exists>r. fst (PolyLineUDT_deserialize bs (PTuple [tag, inds, PList pts]) w) = Inr r)
         \<longleftrightarrow> (\<forall>p \<in> set pts. \<exists>q. PointUDT_deserialize p = Inr q)))
   \<and> (py_eq_int tag 3 \<longrightarrow> py_str bs (PTuple [tag, inds, PList pts]) = Inr s \<longrightarrow>
       (\<forall>p \<in> set pts. \<exists>q. PointUDT_deserialize p = Inr q) \<longrightarrow>
      (\<exists>ps. fst (PolyLineUDT_deserialize bs (PTuple [tag, inds, PList pts]) w)
               = Inr (PPolyLine inds (PList ps)) \<and> length ps = length pts))
   \<and> (py_getitem_str j ''indices'' = Inr jinds \<longrightarrow>
       py_getitem_str j ''points'' = Inr (PList jps) \<longrightarrow>
       (\<forall>p \<in> set jps. \<exists>x y. py_getitem_str p ''x'' = Inr x \<and> py_getitem_str p ''y'' = Inr y)
       \<longrightarrow> (\<exists>qs. PolygonUDT_fromJson j = Inr (PPolygon jinds (PList qs))
                 \<and> PolyLineUDT_fromJson j = Inr (PPolyLine jinds (PList qs))
                 \<and> length qs = length jps))
   \<and> (\<exists>r. PolygonUDT_deserialize
             (PTuple [PInt 5, PList (map PInt ks), PList (map point_triple cs)]) = Inr r)
   \<and> (\<exists>r. fst (PolyLineUDT_deserialize bs
                  (PTuple [PInt 3, PList (map PInt ks), PList (map point_triple cs)]) w) = Inr r)
   \<and> (\<exists>r. PolygonUDT_fromJson (PDict [(''indices'', PList (map PInt ks)),
                                        (''points'', PList (map point_object cs))]) = Inr r)
   \<and> (\<exists>r. PolyLineUDT_fromJson (PDict [(''indices'', PList (map PInt ks)),
                                         (''points'', PList (map point_object cs))]) = Inr r)"
proof -
  have g: "py_eq_int tag 5 \<Longrightarrow>
      ((\<exists>r. PolygonUDT_deserialize (PTuple [tag, inds, PList pts]) = Inr r)
         \<longleftrightarrow> (\<forall>p \<in> set pts. \<exists>q. PointUDT_deserialize p = Inr q))"
    by (simp add: PolygonUDT_deserialize_triple py_bind_succeeds comprehension_succeeds_iff)
  have l: "py_eq_int tag 3 \<Longrightarrow> py_str bs (PTuple [tag, inds, PList pts]) = Inr s \<Longrightarrow>
      ((\<exists>r. fst (PolyLineUDT_deserialize bs (PTuple [tag, inds, PList pts]) w) = Inr r)
         \<longleftrightarrow> (\<forall>p \<in> set pts. \<exists>q. PointUDT_deserialize p = Inr q))"
    by (simp add: PolyLineUDT_deserialize_triple py_bind_succeeds comprehension_succeeds_iff)
  have g2: "py_eq_int tag 5 \<Longrightarrow> (\<forall>p \<in> set pts. \<exists>q. PointUDT_deserialize p = Inr q) \<Longrightarrow>
      (\<exists>ps. PolygonUDT_deserialize (PTuple [tag, inds, PList pts])
               = Inr (PPolygon inds (PList ps)) \<and> length ps = length pts)"
  proof -
    assume t: "py_eq_int tag 5" and "\<forall>p \<in> set pts. \<exists>q. PointUDT_deserialize p = Inr q"
    then obtain ps where ps: "comprehension PointUDT_deserialize pts = Inr ps"
      using comprehension_succeeds by blast
    with t comprehension_nth [OF ps] show ?thesis
      by (simp add: PolygonUDT_deserialize_triple)
  qed
  have l2: "py_eq_int tag 3 \<Longrightarrow> py_str bs (PTuple [tag, inds, PList pts]) = Inr s \<Longrightarrow>
       (\<forall>p \<in> set pts. \<exists>q. PointUDT_deserialize p = Inr q) \<Longrightarrow>
      (\<exists>ps. fst (PolyLineUDT_deserialize bs (PTuple [tag, inds, PList pts]) w)
               = Inr (PPolyLine inds (PList ps)) \<and> length ps = length pts)"
  proof -
    assume t: "py_eq_int tag 3" "py_str bs (PTuple [tag, inds, PList pts]) = Inr s"
      and "\<forall>p \<in> set pts. \<exists>q. PointUDT_deserialize p = Inr q"
    then obtain ps where ps: "comprehension PointUDT_deserialize pts = Inr ps"
      using comprehension_succeeds by blast
    with t comprehension_nth [OF ps] show ?thesis
      by (simp add: PolyLineUDT_deserialize_triple)
  qed
  show ?thesis
    using g l g2 l2 shape_fromJson_object [of j jinds jps]
      typed_deserialize typed_fromJson
    by blast
qed


text \<open>
  Entities that break the invariants and are built all the same: a Polygon without points;
  a Polygon of one open ring of three points with the indices 7, 2; a PolyLine of a single
  point with the index 9; a Polygon and a PolyLine from a JSON object with the indices 5, 1
  and no points.
\<close>

theorem deserialize_ignores_invariants_witness:
  "py_eq_int (PInt 5) 5
   \<and> PolygonUDT_deserialize (PTuple [PInt 5, PList [], PList []])
       = Inr (PPolygon (PList []) (PList []))
   \<and> PolygonUDT_deserialize (PTuple [PInt 5, PList [PInt 7, PInt 2],
         PList [PTuple [PInt 1, PInt 0, PInt 0], PTuple [PInt 1, PInt 1, PInt 0],
                PTuple [PInt 1, PInt 1, PInt 1]]])
       = Inr (PPolygon (PList [PInt 7, PInt 2])
               (PList [PPoint (PInt 0) (PInt 0), PPoint (PInt 1) (PInt 0),
                       PPoint (PInt 1) (PInt 1)]))
   \<and> py_eq_int (PInt 3) 3
   \<and> py_str bs_repr (PTuple [PInt 3, PList [PInt 9], PList [PTuple [PInt 1, PInt 0, PInt 0]]])
       = Inr ''<tuple>''
   \<and> fst (PolyLineUDT_deserialize bs_repr
            (PTuple [PInt 3, PList [PInt 9], PList [PTuple [PInt 1, PInt 0, PInt 0]]]) world0)
       = Inr (PPolyLine (PList [PInt 9]) (PList [PPoint (PInt 0) (PInt 0)]))
   \<and> PolygonUDT_fromJson (PDict [(''indices'', PList [PInt 5, PInt 1]), (''points'', PList [])])
       = Inr (PPolygon (PList [PInt 5, PInt 1]) (PList []))
   \<and> PolyLineUDT_fromJson (PDict [(''indices'', PList [PInt 5, PInt 1]), (''points'', PList [])])
       = Inr (PPolyLine (PList [PInt 5, PInt 1]) (PList []))"
  using deserialize_ignores_invariants [of "PInt 5" "PList []" "[]"]
    deserialize_ignores_invariants [of "PInt 5" "PList [PInt 7, PInt 2]"
      "[PTuple [PInt 1, PInt 0, PInt 0], PTuple [PInt 1, PInt 1, PInt 0],
        PTuple [PInt 1, PInt 1, PInt 1]]"]
    deserialize_ignores_invariants [of "PInt 3" "PList [PInt 9]"
      "[PTuple [PInt 1, PInt 0, PInt 0]]" bs_repr "''<tuple>''" world0
      "PDict [(''indices'', PList [PInt 5, PInt 1]), (''points'', PList [])]"
      "PList [PInt 5, PInt 1]" "[]"]
  by (simp add: PointUDT_deserialize_def PolygonUDT_deserialize_def PolyLineUDT_deserialize_def
      py_print_def isinstance_def Point_init_def Polygon_init_def PolyLine_init_def
      PolygonUDT_fromJson_def PolyLineUDT_fromJson_def bs_repr_def dec_int_def dec_nat.simps)

end
